theory Spec2Isabelle
  imports Main "HOL-Library.Word" "HOL-Library.Monad_Syntax"
begin

unbundle bit_operations_syntax

section \<open>Machine types and constants (page.go)\<close>

text \<open>
  The Go sources work on \<open>byte\<close>, \<open>uint16\<close>, \<open>uint32\<close> and \<open>uint64\<close> values, modelled as
  words of the same width, and on \<open>int\<close> values (64 bit), which here never leave the range
  of sixteen-bit quantities and their sums and are modelled as \<open>int\<close>.

  A Go slice or array is modelled by the list of its visible elements. An index or slice
  expression that is out of range makes the Go runtime panic; the model returns \<open>None\<close>
  there, and \<open>Some\<close> of the result otherwise. Every re-slice in the modelled code starts
  from a slice that runs to the end of the page array, so its capacity is its length.
\<close>

type_synonym byte = "8 word"
type_synonym uint16 = "16 word"
type_synonym uint32 = "32 word"
type_synonym uint64 = "64 word"

definition PageSize :: int where "PageSize = 8192"
definition PageHeaderSize :: int where "PageHeaderSize = 24"
definition ItemIdSize :: int where "ItemIdSize = 4"
definition HeapTupleHdrSize :: int where "HeapTupleHdrSize = 23"
definition IndexTupleHdrSize :: int where "IndexTupleHdrSize = 8"

datatype PageType =
    PageTypeHeap | PageTypeBTree | PageTypeHash | PageTypeGiST
  | PageTypeGIN | PageTypeSPGiST | PageTypeBRIN | PageTypeUnknown

definition LPUnused :: byte where "LPUnused = 0"
definition LPNormal :: byte where "LPNormal = 1"
definition LPRedirect :: byte where "LPRedirect = 2"
definition LPDead :: byte where "LPDead = 3"

subsection \<open>Slices and little-endian reads\<close>

text \<open>\<open>xs[lo:hi]\<close> and \<open>xs[lo:]\<close>; both panic when the bounds are out of range.\<close>

definition slice :: "nat \<Rightarrow> nat \<Rightarrow> 'a list \<Rightarrow> 'a list option" where
  "slice lo hi xs = (if lo \<le> hi \<and> hi \<le> length xs then Some (take (hi - lo) (drop lo xs)) else None)"

definition slice_from :: "nat \<Rightarrow> 'a list \<Rightarrow> 'a list option" where
  "slice_from lo xs = (if lo \<le> length xs then Some (drop lo xs) else None)"

text \<open>\<open>binary.LittleEndian.Uint16\<close> and \<open>Uint32\<close>: they index the last byte they need first,
  so a slice that is too short panics.\<close>

definition Uint16 :: "byte list \<Rightarrow> uint16 option" where
  "Uint16 b = (if length b < 2 then None
     else Some (ucast (b ! 0) OR push_bit 8 (ucast (b ! 1))))"

definition Uint32 :: "byte list \<Rightarrow> uint32 option" where
  "Uint32 b = (if length b < 4 then None
     else Some (ucast (b ! 0) OR push_bit 8 (ucast (b ! 1))
                OR push_bit 16 (ucast (b ! 2)) OR push_bit 24 (ucast (b ! 3))))"

subsection \<open>Page header\<close>

record PageHeader =
  LSN :: uint64
  Checksum :: uint16
  Flags :: uint16
  Lower :: uint16
  Upper :: uint16
  Special :: uint16
  PageSizeVer :: uint16
  PruneXID :: uint32

definition PageSz :: "PageHeader \<Rightarrow> uint16" where
  "PageSz h = PageSizeVer h AND 0xFF00"

definition LayoutVersion :: "PageHeader \<Rightarrow> byte" where
  "LayoutVersion h = ucast (PageSizeVer h AND 0x00FF)"

subsection \<open>Item identifiers\<close>

datatype ItemId = ItemId (Raw: uint32)

definition Offset :: "ItemId \<Rightarrow> uint16" where
  "Offset lp = ucast (Raw lp AND 0x7FFF)"

definition ItemFlags :: "ItemId \<Rightarrow> byte" where
  "ItemFlags lp = ucast (drop_bit 15 (Raw lp) AND 0x03)"

definition Length :: "ItemId \<Rightarrow> uint16" where
  "Length lp = ucast (drop_bit 17 (Raw lp) AND 0x7FFF)"

definition FlagsStr :: "ItemId \<Rightarrow> string" where
  "FlagsStr lp =
     (if ItemFlags lp = LPUnused then ''UNUSED''
      else if ItemFlags lp = LPNormal then ''NORMAL''
      else if ItemFlags lp = LPRedirect then ''REDIRECT''
      else if ItemFlags lp = LPDead then ''DEAD''
      else ''UNKNOWN'')"

subsection \<open>Heap and index tuple headers\<close>

definition HeapHasNull :: uint16 where "HeapHasNull = 0x0001"
definition HeapHasVarWidth :: uint16 where "HeapHasVarWidth = 0x0002"
definition HeapHasExternal :: uint16 where "HeapHasExternal = 0x0004"
definition HeapHasOidOld :: uint16 where "HeapHasOidOld = 0x0008"
definition HeapXmaxKeyShrLock :: uint16 where "HeapXmaxKeyShrLock = 0x0010"
definition HeapComboCID :: uint16 where "HeapComboCID = 0x0020"
definition HeapXmaxExclLock :: uint16 where "HeapXmaxExclLock = 0x0040"
definition HeapXmaxLockOnly :: uint16 where "HeapXmaxLockOnly = 0x0080"
definition HeapXminCommitted :: uint16 where "HeapXminCommitted = 0x0100"
definition HeapXminInvalid :: uint16 where "HeapXminInvalid = 0x0200"
definition HeapXminFrozen :: uint16 where "HeapXminFrozen = 0x0300"
definition HeapXmaxCommitted :: uint16 where "HeapXmaxCommitted = 0x0400"
definition HeapXmaxInvalid :: uint16 where "HeapXmaxInvalid = 0x0800"
definition HeapXmaxIsMulti :: uint16 where "HeapXmaxIsMulti = 0x1000"
definition HeapUpdated :: uint16 where "HeapUpdated = 0x2000"
definition HeapMovedOff :: uint16 where "HeapMovedOff = 0x4000"
definition HeapMovedIn :: uint16 where "HeapMovedIn = 0x8000"

definition HeapNattsMask :: uint16 where "HeapNattsMask = 0x07FF"

definition IndexSizeMask :: uint16 where "IndexSizeMask = 0x1FFF"
definition IndexAMReservedBit :: uint16 where "IndexAMReservedBit = 0x2000"
definition IndexVarMask :: uint16 where "IndexVarMask = 0x4000"
definition IndexNullMask :: uint16 where "IndexNullMask = 0x8000"

record HeapTupleHeader =
  Xmin :: uint32
  Xmax :: uint32
  Field3 :: uint32
  CtidBlock :: uint32
  CtidOffset :: uint16
  Infomask2 :: uint16
  Infomask :: uint16
  Hoff :: byte

definition NAttrs :: "HeapTupleHeader \<Rightarrow> int" where
  "NAttrs t = uint (Infomask2 t AND HeapNattsMask)"

text \<open>\<open>InfomaskFlags\<close> appends one name per test, in the order of the source; the
  \<open>switch\<close> on the two xmin bits is the ninth step.\<close>

definition flag_if :: "bool \<Rightarrow> string \<Rightarrow> string list" where
  "flag_if c name = (if c then [name] else [])"

definition InfomaskFlags :: "HeapTupleHeader \<Rightarrow> string list" where
  "InfomaskFlags t =
     (let m = Infomask t; xminBits = m AND 0x0300 in
        flag_if (m AND HeapHasNull \<noteq> 0) ''HAS_NULL''
      @ flag_if (m AND HeapHasVarWidth \<noteq> 0) ''HAS_VARWIDTH''
      @ flag_if (m AND HeapHasExternal \<noteq> 0) ''HAS_EXTERNAL''
      @ flag_if (m AND HeapHasOidOld \<noteq> 0) ''HAS_OID_OLD''
      @ flag_if (m AND HeapXmaxKeyShrLock \<noteq> 0) ''XMAX_KEYSHR_LOCK''
      @ flag_if (m AND HeapComboCID \<noteq> 0) ''COMBO_CID''
      @ flag_if (m AND HeapXmaxExclLock \<noteq> 0) ''XMAX_EXCL_LOCK''
      @ flag_if (m AND HeapXmaxLockOnly \<noteq> 0) ''XMAX_LOCK_ONLY''
      @ (if xminBits = HeapXminFrozen then [''XMIN_FROZEN'']
         else if xminBits = HeapXminCommitted then [''XMIN_COMMITTED'']
         else if xminBits = HeapXminInvalid then [''XMIN_INVALID'']
         else [])
      @ flag_if (m AND HeapXmaxCommitted \<noteq> 0) ''XMAX_COMMITTED''
      @ flag_if (m AND HeapXmaxInvalid \<noteq> 0) ''XMAX_INVALID''
      @ flag_if (m AND HeapXmaxIsMulti \<noteq> 0) ''XMAX_IS_MULTI''
      @ flag_if (m AND HeapUpdated \<noteq> 0) ''UPDATED''
      @ flag_if (m AND HeapMovedOff \<noteq> 0) ''MOVED_OFF''
      @ flag_if (m AND HeapMovedIn \<noteq> 0) ''MOVED_IN'')"

record IndexTupleHeader =
  TidBlock :: uint32
  TidOffset :: uint16
  Info :: uint16

definition IndexSize :: "IndexTupleHeader \<Rightarrow> int" where
  "IndexSize it = uint (Info it AND IndexSizeMask)"

definition HasNulls :: "IndexTupleHeader \<Rightarrow> bool" where
  "HasNulls it = (Info it AND IndexNullMask \<noteq> 0)"

definition InfoFlags :: "IndexTupleHeader \<Rightarrow> string list" where
  "InfoFlags it =
       flag_if (Info it AND IndexNullMask \<noteq> 0) ''HAS_NULLS''
     @ flag_if (Info it AND IndexVarMask \<noteq> 0) ''HAS_VARWIDTH''
     @ flag_if (Info it AND IndexAMReservedBit \<noteq> 0) ''AM_RESERVED''"

subsection \<open>Pages\<close>

record Page =
  Data :: "byte list"
  Header :: PageHeader
  Items :: "ItemId list"
  PageNum :: int
  Detected :: PageType

definition BTPMeta :: uint16 where "BTPMeta = 0x0008"
definition HashPageID :: uint16 where "HashPageID = 0xFF80"
definition LHMetaPage :: uint16 where "LHMetaPage = 0x0008"
definition GistPageID :: uint16 where "GistPageID = 0xFF81"
definition GistOpaqueSize :: nat where "GistOpaqueSize = 16"
definition GINMeta :: uint16 where "GINMeta = 0x0008"
definition SPGistPageID :: uint16 where "SPGistPageID = 0xFF82"
definition SPGistMeta :: uint16 where "SPGistMeta = 0x0001"
definition BRINPageTypeMeta :: uint16 where "BRINPageTypeMeta = 0xF091"
definition BRINPageTypeRevmap :: uint16 where "BRINPageTypeRevmap = 0xF092"
definition BRINPageTypeRegular :: uint16 where "BRINPageTypeRegular = 0xF093"

text \<open>\<open>detectPageType\<close>, \<open>SpecialSize\<close>, \<open>SpecialData\<close> and \<open>CmdFormat\<close> all start with the
  same three lines: the page size is the masked header field, and \<open>PageSize\<close> only when
  that field is zero.\<close>

definition headerPageSize :: "PageHeader \<Rightarrow> int" where
  "headerPageSize h =
     (let pageSize = uint (PageSz h) in if pageSize = 0 then PageSize else pageSize)"

text \<open>The two blocks of \<open>detectPageType\<close> that look at the special region: the 8-byte
  block (BRIN, SP-GiST, GIN) falls through to the 16-byte block (hash, GiST, B-tree), and
  that one to \<open>PageTypeUnknown\<close>.\<close>

definition detectSpecial16 :: "int \<Rightarrow> byte list \<Rightarrow> PageType option" where
  "detectSpecial16 specialSize special =
     (if specialSize = 16 then do {
        hashID \<leftarrow> slice 14 16 special \<bind> Uint16;
        if hashID = HashPageID then Some PageTypeHash
        else do {
          gistID \<leftarrow> slice 14 16 special \<bind> Uint16;
          if gistID = GistPageID then Some PageTypeGiST
          else do {
            btFlags \<leftarrow> slice 12 14 special \<bind> Uint16;
            if btFlags AND 0xFE00 = 0 then Some PageTypeBTree
            else Some PageTypeUnknown
          }
        }
      }
      else Some PageTypeUnknown)"

definition detectSpecial8 :: "int \<Rightarrow> byte list \<Rightarrow> PageType option" where
  "detectSpecial8 specialSize special =
     (if specialSize = 8 then do {
        brinType \<leftarrow> slice 6 8 special \<bind> Uint16;
        if brinType = BRINPageTypeMeta \<or> brinType = BRINPageTypeRevmap
           \<or> brinType = BRINPageTypeRegular
        then Some PageTypeBRIN
        else do {
          spgistID \<leftarrow> slice 6 8 special \<bind> Uint16;
          if spgistID = SPGistPageID then Some PageTypeSPGiST
          else do {
            ginFlags \<leftarrow> slice 6 8 special \<bind> Uint16;
            if ginFlags = 0 \<or> (ginFlags AND 0xFF00 = 0 \<and> ginFlags AND 0x00FF \<noteq> 0)
            then Some PageTypeGIN
            else detectSpecial16 specialSize special
          }
        }
      }
      else detectSpecial16 specialSize special)"

definition detectPageType :: "Page \<Rightarrow> PageType option" where
  "detectPageType p =
     (let h = Header p;
          pageSize = headerPageSize h;
          specialSize = pageSize - uint (Special h)
      in if specialSize = 0 then Some PageTypeHeap
         else if uint (Special h) \<ge> pageSize \<or> uint (Special h) < PageHeaderSize
         then Some PageTypeUnknown
         else do {
           special \<leftarrow> slice_from (unat (Special h)) (Data p);
           detectSpecial8 specialSize special
         })"

definition SpecialSize :: "Page \<Rightarrow> int" where
  "SpecialSize p = headerPageSize (Header p) - uint (Special (Header p))"

text \<open>\<open>SpecialData\<close> returns \<open>nil\<close> (the inner \<open>None\<close>) when the special offset is not below
  the page size, and the slice up to the page size otherwise.\<close>

definition SpecialData :: "Page \<Rightarrow> byte list option option" where
  "SpecialData p =
     (let pageSize = headerPageSize (Header p)
      in if uint (Special (Header p)) \<ge> pageSize then Some None
         else map_option Some (slice (unat (Special (Header p))) (nat pageSize) (Data p)))"

subsection \<open>ParsePage\<close>

function ParsePage_items :: "byte list \<Rightarrow> nat \<Rightarrow> nat \<Rightarrow> ItemId list option" where
  "ParsePage_items data i numItems =
     (if i < numItems then do {
        raw \<leftarrow> slice (nat PageHeaderSize + i * nat ItemIdSize)
                     (nat PageHeaderSize + i * nat ItemIdSize + 4) data \<bind> Uint32;
        rest \<leftarrow> ParsePage_items data (i + 1) numItems;
        Some (ItemId raw # rest)
      }
      else Some [])"
  by pat_completeness auto
termination
  by (relation "measure (\<lambda>(data, i, numItems). numItems - i)") auto

declare ParsePage_items.simps [simp del]

definition numItems_of :: "uint16 \<Rightarrow> int" where
  "numItems_of lower = (if uint lower > PageHeaderSize then uint (lower - 24) div ItemIdSize else 0)"

definition ParsePage :: "byte list \<Rightarrow> Page option" where
  "ParsePage data = do {
     xlogid \<leftarrow> slice 0 4 data \<bind> Uint32;
     xrecoff \<leftarrow> slice 4 8 data \<bind> Uint32;
     checksum \<leftarrow> slice 8 10 data \<bind> Uint16;
     flags \<leftarrow> slice 10 12 data \<bind> Uint16;
     lower \<leftarrow> slice 12 14 data \<bind> Uint16;
     upper \<leftarrow> slice 14 16 data \<bind> Uint16;
     special \<leftarrow> slice 16 18 data \<bind> Uint16;
     pagesizever \<leftarrow> slice 18 20 data \<bind> Uint16;
     prunexid \<leftarrow> slice 20 24 data \<bind> Uint32;
     let h = \<lparr> LSN = push_bit 32 (ucast xlogid) OR ucast xrecoff, Checksum = checksum,
               Flags = flags, Lower = lower, Upper = upper, Special = special,
               PageSizeVer = pagesizever, PruneXID = prunexid \<rparr>;
     items \<leftarrow> ParsePage_items data 0 (nat (numItems_of lower));
     let p = \<lparr> Data = data, Header = h, Items = items, PageNum = 0,
               Detected = PageTypeHeap \<rparr>;
     detected \<leftarrow> detectPageType p;
     Some (p \<lparr> Detected := detected \<rparr>)
   }"

subsection \<open>Tuple headers read from the page\<close>

definition index_at :: "nat \<Rightarrow> 'a list \<Rightarrow> 'a option" where
  "index_at i xs = (if i < length xs then Some (xs ! i) else None)"

definition ParseHeapTupleHeader :: "Page \<Rightarrow> uint16 \<Rightarrow> HeapTupleHeader option" where
  "ParseHeapTupleHeader p offset = do {
     d \<leftarrow> slice_from (unat offset) (Data p);
     xmin \<leftarrow> slice 0 4 d \<bind> Uint32;
     xmax \<leftarrow> slice 4 8 d \<bind> Uint32;
     field3 \<leftarrow> slice 8 12 d \<bind> Uint32;
     biHi \<leftarrow> slice 12 14 d \<bind> Uint16;
     biLo \<leftarrow> slice 14 16 d \<bind> Uint16;
     ctidOffset \<leftarrow> slice 16 18 d \<bind> Uint16;
     infomask2 \<leftarrow> slice 18 20 d \<bind> Uint16;
     infomask \<leftarrow> slice 20 22 d \<bind> Uint16;
     hoff \<leftarrow> index_at 22 d;
     Some \<lparr> Xmin = xmin, Xmax = xmax, Field3 = field3,
            CtidBlock = push_bit 16 (ucast biHi) OR ucast biLo, CtidOffset = ctidOffset,
            Infomask2 = infomask2, Infomask = infomask, Hoff = hoff \<rparr>
   }"

definition ParseIndexTupleHeader :: "Page \<Rightarrow> uint16 \<Rightarrow> IndexTupleHeader option" where
  "ParseIndexTupleHeader p offset = do {
     d \<leftarrow> slice_from (unat offset) (Data p);
     biHi \<leftarrow> slice 0 2 d \<bind> Uint16;
     biLo \<leftarrow> slice 2 4 d \<bind> Uint16;
     tidOffset \<leftarrow> slice 4 6 d \<bind> Uint16;
     info \<leftarrow> slice 6 8 d \<bind> Uint16;
     Some \<lparr> TidBlock = push_bit 16 (ucast biHi) OR ucast biLo, TidOffset = tidOffset,
            Info = info \<rparr>
   }"

section \<open>Special regions and commands (special.go)\<close>

subsection \<open>GiST special region\<close>

definition GistFLeaf :: uint16 where "GistFLeaf = 0x0001"
definition GistFDeleted :: uint16 where "GistFDeleted = 0x0002"
definition GistFTuplesDeleted :: uint16 where "GistFTuplesDeleted = 0x0004"
definition GistFFollowRight :: uint16 where "GistFFollowRight = 0x0008"
definition GistFHasGarbage :: uint16 where "GistFHasGarbage = 0x0010"

definition gistFlags :: "uint16 \<Rightarrow> string list" where
  "gistFlags f =
       flag_if (f AND GistFLeaf \<noteq> 0) ''F_LEAF''
     @ flag_if (f AND GistFDeleted \<noteq> 0) ''F_DELETED''
     @ flag_if (f AND GistFTuplesDeleted \<noteq> 0) ''F_TUPLES_DELETED''
     @ flag_if (f AND GistFFollowRight \<noteq> 0) ''F_FOLLOW_RIGHT''
     @ flag_if (f AND GistFHasGarbage \<noteq> 0) ''F_HAS_GARBAGE''"

text \<open>
  \<open>DecodeGiSTSpecial\<close> prints its fields; the model returns what it prints. The line
  \<open>nsn : %X/%08X\<close> is given by its two arguments, \<open>nsn>>32\<close> before the slash and
  \<open>nsn&0xFFFFFFFF\<close> after it.
\<close>

record GiSTOpaque =
  nsn :: uint64
  nsn_before_slash :: uint64
  nsn_after_slash :: uint64
  rightlink :: uint32
  gist_flags :: uint16
  gist_flag_names :: "string list"
  gist_page_id :: uint16
  is_gist_page_id :: bool

datatype GiSTOutput = GiSTTooShort | GiSTFields GiSTOpaque

definition DecodeGiSTSpecial :: "byte list \<Rightarrow> GiSTOutput option" where
  "DecodeGiSTSpecial data =
     (if length data < GistOpaqueSize then Some GiSTTooShort
      else do {
        nsnLo \<leftarrow> slice 0 4 data \<bind> Uint32;
        nsnHi \<leftarrow> slice 4 8 data \<bind> Uint32;
        let nsn = push_bit 32 (ucast nsnLo) OR ucast nsnHi;
        rightlink \<leftarrow> slice 8 12 data \<bind> Uint32;
        flags \<leftarrow> slice 12 14 data \<bind> Uint16;
        pageID \<leftarrow> slice 14 16 data \<bind> Uint16;
        Some (GiSTFields \<lparr> nsn = nsn, nsn_before_slash = drop_bit 32 nsn,
                nsn_after_slash = nsn AND 0xFFFFFFFF, rightlink = rightlink,
                gist_flags = flags, gist_flag_names = gistFlags flags,
                gist_page_id = pageID, is_gist_page_id = (pageID = GistPageID) \<rparr>)
      })"

subsection \<open>The layout view of CmdFormat\<close>





subsection \<open>Tuple views of CmdData\<close>

text \<open>
  \<open>printHeapTuples\<close> and \<open>printIndexTuples\<close> print a few lines per item. The model returns,
  for each item, the list of what is printed after the item's heading; a tuple header
  appears in it exactly when the bytes at the item's offset were parsed.
\<close>

datatype Output =
    OutUnused
  | OutRedirect uint16
  | OutDeadNoStorage
  | OutDeadHasStorage
  | OutNoStorage
  | OutBeyondPage
  | OutTooShort uint16 "byte list"
  | OutHeapHeader HeapTupleHeader
  | OutNullBitmap "byte list"
  | OutUserData int int "byte list"
  | OutIndexHeader IndexTupleHeader
  | OutHasNullBitmap
  | OutKeyData int "byte list"
  | OutPrintable "byte list list"

fun extractPrintable_loop :: "byte list \<Rightarrow> byte list \<Rightarrow> byte list list" where
  "extractPrintable_loop [] current = (if length current \<ge> 3 then [current] else [])"
| "extractPrintable_loop (b # bs) current =
     (if b \<ge> 0x20 \<and> b \<le> 0x7e then extractPrintable_loop bs (current @ [b])
      else (if length current \<ge> 3 then [current] else []) @ extractPrintable_loop bs [])"

definition extractPrintable :: "byte list \<Rightarrow> byte list list" where
  "extractPrintable data = extractPrintable_loop data []"

definition printable_lines :: "byte list \<Rightarrow> Output list" where
  "printable_lines bytes =
     (let strs = extractPrintable bytes in if length strs > 0 then [OutPrintable strs] else [])"

text \<open>The body of the loop of \<open>printHeapTuples\<close>, for one item.\<close>

definition printHeapTuples_item :: "Page \<Rightarrow> ItemId \<Rightarrow> Output list option" where
  "printHeapTuples_item p lp =
     (if ItemFlags lp = LPUnused then Some [OutUnused]
      else if ItemFlags lp = LPRedirect then Some [OutRedirect (Offset lp)]
      else if ItemFlags lp = LPDead \<and> Length lp = 0 then Some [OutDeadNoStorage]
      else
        let dead = (if ItemFlags lp = LPDead then [OutDeadHasStorage] else [])
        in if Length lp = 0 \<or> Offset lp = 0 then Some (dead @ [OutNoStorage])
           else if uint (Offset lp) + uint (Length lp) > PageSize
           then Some (dead @ [OutBeyondPage])
           else do {
             t \<leftarrow> ParseHeapTupleHeader p (Offset lp);
             let bitmap =
               (if Infomask t AND HeapHasNull \<noteq> 0
                then let bitmapBytes = (NAttrs t + 7) div 8;
                         bitmapStart = uint (Offset lp) + HeapTupleHdrSize
                     in [OutNullBitmap (take (nat bitmapBytes)
                           (drop (nat bitmapStart) (take (nat PageSize) (Data p))))]
                else []);
             let dataStart = uint (Offset lp) + uint (Hoff t);
             let dataEnd = (let e = uint (Offset lp) + uint (Length lp)
                            in if e > PageSize then PageSize else e);
             let dataLen = dataEnd - dataStart;
             user \<leftarrow> (if dataLen > 0
                      then do {
                        bytes \<leftarrow> slice (nat dataStart) (nat dataEnd) (Data p);
                        Some (OutUserData dataLen dataStart bytes # printable_lines bytes)
                      }
                      else Some []);
             Some (dead @ [OutHeapHeader t] @ bitmap @ user)
           })"

primrec printHeapTuples_loop :: "Page \<Rightarrow> ItemId list \<Rightarrow> Output list list option" where
  "printHeapTuples_loop p [] = Some []"
| "printHeapTuples_loop p (lp # lps) = do {
     out \<leftarrow> printHeapTuples_item p lp;
     rest \<leftarrow> printHeapTuples_loop p lps;
     Some (out # rest)
   }"

definition printHeapTuples :: "Page \<Rightarrow> Output list list option" where
  "printHeapTuples p = printHeapTuples_loop p (Items p)"

text \<open>\<open>isMeta\<close>: whether the special region marks the page as its index's meta page.\<close>

definition isMeta :: "Page \<Rightarrow> bool option" where
  "isMeta p = do {
     sd \<leftarrow> SpecialData p;
     case sd of
       None \<Rightarrow> Some False
     | Some special \<Rightarrow>
         (case Detected p of
            PageTypeBTree \<Rightarrow>
              if length special \<ge> 14
              then do { w \<leftarrow> slice 12 14 special \<bind> Uint16; Some (w AND BTPMeta \<noteq> 0) }
              else Some False
          | PageTypeHash \<Rightarrow>
              if length special \<ge> 14
              then do { w \<leftarrow> slice 12 14 special \<bind> Uint16; Some (w AND LHMetaPage \<noteq> 0) }
              else Some False
          | PageTypeGIN \<Rightarrow>
              if length special \<ge> 8
              then do { w \<leftarrow> slice 6 8 special \<bind> Uint16; Some (w AND GINMeta \<noteq> 0) }
              else Some False
          | PageTypeSPGiST \<Rightarrow>
              if length special \<ge> 2
              then do { w \<leftarrow> slice 0 2 special \<bind> Uint16; Some (w AND SPGistMeta \<noteq> 0) }
              else Some False
          | PageTypeBRIN \<Rightarrow>
              if length special \<ge> 8
              then do { w \<leftarrow> slice 6 8 special \<bind> Uint16; Some (w = BRINPageTypeMeta) }
              else Some False
          | _ \<Rightarrow> Some False)
   }"

text \<open>The body of the loop of \<open>printIndexTuples\<close>, for one item.\<close>

definition printIndexTuples_item :: "Page \<Rightarrow> ItemId \<Rightarrow> Output list option" where
  "printIndexTuples_item p lp =
     (if ItemFlags lp = LPUnused then Some [OutUnused]
      else if ItemFlags lp = LPRedirect then Some [OutRedirect (Offset lp)]
      else if ItemFlags lp = LPDead \<and> Length lp = 0 then Some [OutDeadNoStorage]
      else
        let dead = (if ItemFlags lp = LPDead then [OutDeadHasStorage] else [])
        in if Length lp = 0 \<or> Offset lp = 0 then Some (dead @ [OutNoStorage])
           else if uint (Offset lp) + uint (Length lp) > PageSize
           then Some (dead @ [OutBeyondPage])
           else if uint (Length lp) < IndexTupleHdrSize
           then do {
             raw \<leftarrow> slice (unat (Offset lp)) (nat (uint (Offset lp) + uint (Length lp))) (Data p);
             Some (dead @ [OutTooShort (Length lp) raw])
           }
           else do {
             it \<leftarrow> ParseIndexTupleHeader p (Offset lp);
             let keyStart = uint (Offset lp) + IndexTupleHdrSize;
             let keyEnd = (let e = uint (Offset lp) + uint (Length lp)
                           in if e > PageSize then PageSize else e);
             let keyLen = keyEnd - keyStart;
             let nulls = (if HasNulls it then [OutHasNullBitmap] else []);
             key \<leftarrow> (if keyLen > 0
                     then do {
                       bytes \<leftarrow> slice (nat keyStart) (nat keyEnd) (Data p);
                       Some (OutKeyData keyLen bytes # printable_lines bytes)
                     }
                     else Some []);
             Some (dead @ [OutIndexHeader it] @ nulls @ key)
           })"

primrec printIndexTuples_loop :: "Page \<Rightarrow> ItemId list \<Rightarrow> Output list list option" where
  "printIndexTuples_loop p [] = Some []"
| "printIndexTuples_loop p (lp # lps) = do {
     out \<leftarrow> printIndexTuples_item p lp;
     rest \<leftarrow> printIndexTuples_loop p lps;
     Some (out # rest)
   }"

datatype IndexOutput = MetaPageNote | IndexItems "Output list list"

definition printIndexTuples :: "Page \<Rightarrow> IndexOutput option" where
  "printIndexTuples p = do {
     meta \<leftarrow> isMeta p;
     if meta then Some MetaPageNote
     else map_option IndexItems (printIndexTuples_loop p (Items p))
   }"

section \<open>Example pages\<close>

text \<open>Concrete 8192-byte buffers, given by their header bytes; every other byte is zero.\<close>

definition header_bytes :: "uint16 \<Rightarrow> uint16 \<Rightarrow> uint16 \<Rightarrow> uint16 \<Rightarrow> byte list" where
  "header_bytes lower upper special pagesizever =
     replicate 12 0
     @ [ucast lower, ucast (drop_bit 8 lower), ucast upper, ucast (drop_bit 8 upper),
        ucast special, ucast (drop_bit 8 special),
        ucast pagesizever, ucast (drop_bit 8 pagesizever)]
     @ replicate 4 0"

text \<open>A page as the storage manager first writes it: all zero.\<close>

definition zero_page :: "byte list" where
  "zero_page = replicate 8192 0"

text \<open>A page whose \<open>lower\<close> field is \<open>0xFFFF\<close>.\<close>

definition lower_ffff_page :: "byte list" where
  "lower_ffff_page = header_bytes 0xFFFF 0 0 0 @ replicate 8168 0"

text \<open>A heap page with one item: NORMAL, offset 100, length 50 (raw word \<open>0x00648064\<close>),
  and \<open>upper = 8000\<close>.\<close>

definition low_item_page :: "byte list" where
  "low_item_page = header_bytes 28 8000 8192 0x2004 @ [0x64, 0x80, 0x64, 0x00] @ replicate 8164 0"

text \<open>A heap page with one item: NORMAL, offset 8190, length 2 (raw word \<open>0x00049FFE\<close>).\<close>

definition short_item_page :: "byte list" where
  "short_item_page = header_bytes 28 8190 8192 0x2004 @ [0xFE, 0x9F, 0x04, 0x00] @ replicate 8164 0"

text \<open>Pages whose page-size field is not \<open>0x2000\<close>: 4096 with the special region at 4088,
  8448 with the special region at 8440, and 16384 with the special region at 8192.\<close>

definition pagesize_1000_page :: "byte list" where
  "pagesize_1000_page = header_bytes 24 4088 4088 0x1004 @ replicate 8168 0"


definition pagesize_4000_page :: "byte list" where
  "pagesize_4000_page = header_bytes 24 8192 8192 0x4004 @ replicate 8168 0"

text \<open>A BRIN meta page: 8-byte special region ending in the word \<open>0xF091\<close>.\<close>

definition brin_page :: "byte list" where
  "brin_page = header_bytes 24 8184 8184 0x2004 @ replicate 8166 0 @ [0x91, 0xF0]"

text \<open>A GiST special region whose first stored word is 1 and whose second is 2.\<close>

definition gist_special_bytes :: "byte list" where
  "gist_special_bytes = [1, 0, 0, 0, 2, 0, 0, 0] @ replicate 6 0 @ [0x81, 0xFF]"

text \<open>The composition of \<open>nsn\<close> in the words of the specification: the first stored word is
  the low half, the second the high half.\<close>

definition spec_nsn_low_then_high :: "uint32 \<Rightarrow> uint32 \<Rightarrow> uint64" where
  "spec_nsn_low_then_high first second = ucast first OR push_bit 32 (ucast second)"


text \<open>The pages that \<open>ParsePage\<close> returns for these buffers, and for the buffer with page
  size 8448 the page as it is when \<open>ParsePage\<close> calls \<open>detectPageType\<close>.\<close>

definition parsed_header :: "uint16 \<Rightarrow> uint16 \<Rightarrow> uint16 \<Rightarrow> uint16 \<Rightarrow> PageHeader" where
  "parsed_header l u s v =
     \<lparr> LSN = 0, Checksum = 0, Flags = 0, Lower = l, Upper = u, Special = s,
       PageSizeVer = v, PruneXID = 0 \<rparr>"

definition zero_parsed :: Page where
  "zero_parsed = \<lparr> Data = zero_page, Header = parsed_header 0 0 0 0, Items = [],
     PageNum = 0, Detected = PageTypeUnknown \<rparr>"

definition low_item_parsed :: Page where
  "low_item_parsed = \<lparr> Data = low_item_page, Header = parsed_header 28 8000 8192 0x2004,
     Items = [ItemId 0x00648064], PageNum = 0, Detected = PageTypeHeap \<rparr>"

definition short_item_parsed :: Page where
  "short_item_parsed = \<lparr> Data = short_item_page, Header = parsed_header 28 8190 8192 0x2004,
     Items = [ItemId 0x00049FFE], PageNum = 0, Detected = PageTypeHeap \<rparr>"

definition pagesize_1000_parsed :: Page where
  "pagesize_1000_parsed = \<lparr> Data = pagesize_1000_page,
     Header = parsed_header 24 4088 4088 0x1004, Items = [], PageNum = 0,
     Detected = PageTypeGIN \<rparr>"


definition pagesize_4000_parsed :: Page where
  "pagesize_4000_parsed = \<lparr> Data = pagesize_4000_page,
     Header = parsed_header 24 8192 8192 0x4004, Items = [], PageNum = 0,
     Detected = PageTypeUnknown \<rparr>"

definition brin_parsed :: Page where
  "brin_parsed = \<lparr> Data = brin_page, Header = parsed_header 24 8184 8184 0x2004,
     Items = [], PageNum = 0, Detected = PageTypeBRIN \<rparr>"

section \<open>Bytes, words and slices\<close>

lemma word_0x7FFF_mask: "(0x7FFF :: 'a::len word) = mask 15"
  by (simp add: mask_eq_exp_minus_1)

lemma word_3_mask: "(3 :: 'a::len word) = mask 2"
  by (simp add: mask_eq_exp_minus_1)





lemma uint16_eq_8192: "(uint (w :: uint16) = 8192) = (w = 0x2000)"
  by (simp add: word_uint_eq_iff)

lemma Uint16_slice:
  assumes "lo + 2 \<le> length xs"
  shows "slice lo (lo + 2) xs \<bind> Uint16
         = Some (ucast (xs ! lo) OR push_bit 8 (ucast (xs ! (lo + 1))))"
  using assms by (simp add: slice_def Uint16_def)

lemma Uint32_slice:
  assumes "lo + 4 \<le> length xs"
  shows "slice lo (lo + 4) xs \<bind> Uint32
         = Some (ucast (xs ! lo) OR push_bit 8 (ucast (xs ! (lo + 1)))
                 OR push_bit 16 (ucast (xs ! (lo + 2))) OR push_bit 24 (ucast (xs ! (lo + 3))))"
  using assms by (simp add: slice_def Uint32_def)

lemma Uint16_two_bytes: "Uint16 [ucast w, ucast (drop_bit 8 w)] = Some w"
  unfolding Uint16_def
  by (simp, rule bit_eqI) (auto simp add: bit_simps)

lemma length_header_bytes [simp]: "length (header_bytes l u s v) = 24"
  by (simp add: header_bytes_def)

section \<open>The page size taken from the header\<close>

lemma headerPageSize_alt:
  "headerPageSize h =
     (if PageSizeVer h AND 0xFF00 = 0 then 8192 else uint (PageSizeVer h AND 0xFF00))"
  unfolding headerPageSize_def Let_def PageSz_def PageSize_def
  by (simp add: uint_0_iff)


section \<open>ParsePage on the example buffers\<close>

lemma ParsePage_items_out_of_range:
  assumes "i \<le> k" and "k < numItems" and "length data < 24 + k * 4 + 4"
  shows "ParsePage_items data i numItems = None"
  using assms
proof (induction data i numItems rule: ParsePage_items.induct)
  case (1 data i numItems)
  from "1.prems" have less: "i < numItems" by simp
  show ?case
  proof (cases "slice (nat PageHeaderSize + i * nat ItemIdSize)
                  (nat PageHeaderSize + i * nat ItemIdSize + 4) data \<bind> Uint32")
    case None
    then show ?thesis
      using less by (subst ParsePage_items.simps) simp
  next
    case (Some raw)
    then have "nat PageHeaderSize + i * nat ItemIdSize + 4 \<le> length data"
      by (auto simp add: slice_def bind_eq_Some_conv split: if_splits)
    with "1.prems" have "i \<noteq> k"
      by (auto simp add: PageHeaderSize_def ItemIdSize_def)
    with "1.prems" have "i + 1 \<le> k" by simp
    with "1.IH" [OF less Some] "1.prems" have "ParsePage_items data (i + 1) numItems = None"
      by simp
    then show ?thesis
      using less Some by (subst ParsePage_items.simps) simp
  qed
qed

lemma ParsePage_header_bytes:
  "ParsePage (header_bytes l u s v @ rest) = do {
     items \<leftarrow> ParsePage_items (header_bytes l u s v @ rest) 0 (nat (numItems_of l));
     detected \<leftarrow> detectPageType \<lparr> Data = header_bytes l u s v @ rest,
        Header = parsed_header l u s v, Items = items, PageNum = 0, Detected = PageTypeHeap \<rparr>;
     Some \<lparr> Data = header_bytes l u s v @ rest,
        Header = parsed_header l u s v, Items = items, PageNum = 0, Detected = detected \<rparr>
   }"
proof -
  have rd: "slice 0 4 (header_bytes l u s v @ rest) \<bind> Uint32 = Some 0"
    "slice 4 8 (header_bytes l u s v @ rest) \<bind> Uint32 = Some 0"
    "slice 8 10 (header_bytes l u s v @ rest) \<bind> Uint16 = Some 0"
    "slice 10 12 (header_bytes l u s v @ rest) \<bind> Uint16 = Some 0"
    "slice 20 24 (header_bytes l u s v @ rest) \<bind> Uint32 = Some 0"
    by (simp_all add: slice_def header_bytes_def Uint32_def Uint16_def)
  have rd2: "slice 12 14 (header_bytes l u s v @ rest) \<bind> Uint16 = Some l"
    "slice 14 16 (header_bytes l u s v @ rest) \<bind> Uint16 = Some u"
    "slice 16 18 (header_bytes l u s v @ rest) \<bind> Uint16 = Some s"
    "slice 18 20 (header_bytes l u s v @ rest) \<bind> Uint16 = Some v"
    by (simp_all add: slice_def header_bytes_def Uint16_two_bytes)
  show ?thesis
    unfolding ParsePage_def rd rd2 by (simp add: parsed_header_def Let_def)
qed


lemma ParsePage_items_done: "\<not> i < numItems \<Longrightarrow> ParsePage_items data i numItems = Some []"
  by (subst ParsePage_items.simps) simp


lemma ParsePage_lower_ffff_page: "ParsePage lower_ffff_page = None"
proof -
  have "ParsePage_items lower_ffff_page 0 (nat (numItems_of 0xFFFF)) = None"
    by (rule ParsePage_items_out_of_range [where k = 2042])
       (simp_all add: numItems_of_def PageHeaderSize_def ItemIdSize_def lower_ffff_page_def)
  then show ?thesis
    unfolding lower_ffff_page_def ParsePage_header_bytes by simp
qed

lemma ParsePage_pagesize_1000_page: "ParsePage pagesize_1000_page = Some pagesize_1000_parsed"
  unfolding pagesize_1000_page_def ParsePage_header_bytes
  by (simp add: numItems_of_def PageHeaderSize_def ParsePage_items_done detectPageType_def
      parsed_header_def headerPageSize_def PageSz_def PageSize_def pagesize_1000_parsed_def
      pagesize_1000_page_def slice_from_def detectSpecial8_def slice_def Uint16_def
      BRINPageTypeMeta_def BRINPageTypeRevmap_def BRINPageTypeRegular_def SPGistPageID_def)

lemma ParsePage_pagesize_4000_page: "ParsePage pagesize_4000_page = Some pagesize_4000_parsed"
  unfolding pagesize_4000_page_def ParsePage_header_bytes
  by (simp add: numItems_of_def PageHeaderSize_def ParsePage_items_done detectPageType_def
      parsed_header_def headerPageSize_def PageSz_def PageSize_def pagesize_4000_parsed_def
      pagesize_4000_page_def slice_from_def detectSpecial8_def detectSpecial16_def)

lemma ParsePage_brin_page: "ParsePage brin_page = Some brin_parsed"
  unfolding brin_page_def ParsePage_header_bytes
  by (simp add: numItems_of_def PageHeaderSize_def ParsePage_items_done detectPageType_def
      parsed_header_def headerPageSize_def PageSz_def PageSize_def brin_parsed_def
      brin_page_def slice_from_def detectSpecial8_def slice_def Uint16_def
      BRINPageTypeMeta_def BRINPageTypeRevmap_def BRINPageTypeRegular_def SPGistPageID_def)



lemma ParsePage_items_step:
  "i < numItems \<Longrightarrow> ParsePage_items data i numItems = do {
        raw \<leftarrow> slice (24 + i * 4) (24 + i * 4 + 4) data \<bind> Uint32;
        rest \<leftarrow> ParsePage_items data (i + 1) numItems;
        Some (ItemId raw # rest)
      }"
  by (subst ParsePage_items.simps) (simp add: PageHeaderSize_def ItemIdSize_def)

lemma ParsePage_low_item_page: "ParsePage low_item_page = Some low_item_parsed"
  unfolding low_item_page_def ParsePage_header_bytes
  by (simp add: numItems_of_def PageHeaderSize_def ItemIdSize_def ParsePage_items_done
      ParsePage_items_step detectPageType_def
      parsed_header_def headerPageSize_def PageSz_def PageSize_def low_item_parsed_def
      low_item_page_def slice_def Uint32_def)

lemma ParsePage_short_item_page: "ParsePage short_item_page = Some short_item_parsed"
  unfolding short_item_page_def ParsePage_header_bytes
  by (simp add: numItems_of_def PageHeaderSize_def ItemIdSize_def ParsePage_items_done
      ParsePage_items_step detectPageType_def
      parsed_header_def headerPageSize_def PageSz_def PageSize_def short_item_parsed_def
      short_item_page_def slice_def Uint32_def)

section \<open>Facts shared by the claims\<close>

lemma LP_distinct [simp]:
  "LPUnused \<noteq> LPNormal" "LPRedirect \<noteq> LPNormal" "LPDead \<noteq> LPNormal"
  "LPNormal \<noteq> LPUnused" "LPNormal \<noteq> LPRedirect" "LPNormal \<noteq> LPDead"
  "LPDead \<noteq> LPUnused" "LPDead \<noteq> LPRedirect" "LPUnused \<noteq> LPDead" "LPRedirect \<noteq> LPDead"
  by (simp_all add: LPUnused_def LPNormal_def LPRedirect_def LPDead_def)

lemma filter_flag_if: "filter P (flag_if c name) = (if P name then flag_if c name else [])"
  by (simp add: flag_if_def)

lemma detectSpecial16_not_heap: "detectSpecial16 n special \<noteq> Some PageTypeHeap"
  unfolding detectSpecial16_def
  by (auto simp add: bind_eq_Some_conv split: if_splits)

lemma detectSpecial8_not_heap: "detectSpecial8 n special \<noteq> Some PageTypeHeap"
  unfolding detectSpecial8_def
  by (auto simp add: bind_eq_Some_conv detectSpecial16_not_heap split: if_splits)


lemma nsn_halves:
  fixes a b :: uint32
  shows "drop_bit 32 (push_bit 32 (ucast a) OR ucast b :: uint64) = ucast a"
    and "(push_bit 32 (ucast a) OR ucast b :: uint64) AND 0xFFFFFFFF = ucast b"
proof -
  have m: "(0xFFFFFFFF :: uint64) = mask 32" by (simp add: mask_eq_exp_minus_1)
  show "drop_bit 32 (push_bit 32 (ucast a) OR ucast b :: uint64) = ucast a"
    by (rule bit_eqI) (auto simp add: bit_simps dest: bit_imp_le_length)
  show "(push_bit 32 (ucast a) OR ucast b :: uint64) AND 0xFFFFFFFF = ucast b"
    unfolding m by (rule bit_eqI) (auto simp add: bit_simps dest: bit_imp_le_length)
qed

lemma ParseHeapTupleHeader_ignores_header:
  "ParseHeapTupleHeader (p \<lparr> Header := h \<rparr>) off = ParseHeapTupleHeader p off"
  by (simp add: ParseHeapTupleHeader_def)

lemma ParseIndexTupleHeader_ignores_header:
  "ParseIndexTupleHeader (p \<lparr> Header := h \<rparr>) off = ParseIndexTupleHeader p off"
  by (simp add: ParseIndexTupleHeader_def)

lemma Data_ignores_header: "Data (p \<lparr> Header := h \<rparr>) = Data p"
  by simp

lemma tuple_views_ignore_header:
  "printHeapTuples_item (p \<lparr> Header := h \<rparr>) lp = printHeapTuples_item p lp"
  "printIndexTuples_item (p \<lparr> Header := h \<rparr>) lp = printIndexTuples_item p lp"
  unfolding printHeapTuples_item_def printIndexTuples_item_def
    ParseHeapTupleHeader_ignores_header ParseIndexTupleHeader_ignores_header
    Data_ignores_header
  by (rule refl)+

text \<open>
  The loops of \<open>printHeapTuples\<close> and \<open>printIndexTuples\<close> print, item by item, what their
  bodies print; \<open>printIndexTuples\<close> prints a note instead, and looks at no item, when
  \<open>isMeta\<close> holds. The claims about items are stated for the loop bodies.
\<close>

lemma printHeapTuples_loop_items:
  "printHeapTuples_loop p lps = Some outs
   \<Longrightarrow> list_all2 (\<lambda>lp out. printHeapTuples_item p lp = Some out) lps outs"
  by (induction lps arbitrary: outs) (auto simp add: bind_eq_Some_conv)

lemma printIndexTuples_loop_items:
  "printIndexTuples_loop p lps = Some outs
   \<Longrightarrow> list_all2 (\<lambda>lp out. printIndexTuples_item p lp = Some out) lps outs"
  by (induction lps arbitrary: outs) (auto simp add: bind_eq_Some_conv)

lemma printIndexTuples_cases:
  "printIndexTuples p = Some out
   \<Longrightarrow> (isMeta p = Some True \<and> out = MetaPageNote)
       \<or> (isMeta p = Some False
           \<and> (\<exists>outs. out = IndexItems outs
                \<and> list_all2 (\<lambda>lp out. printIndexTuples_item p lp = Some out) (Items p) outs))"
  by (auto simp add: printIndexTuples_def bind_eq_Some_conv
      dest: printIndexTuples_loop_items split: if_splits)

section \<open>Bounds of the slices\<close>

text \<open>
  C1. The claim is that, for every 8192-byte buffer, no decoding operation reads outside
  the buffer because every slice is first bounded against the buffer end, whatever the
  header fields \<open>lower\<close>, \<open>special\<close>, \<open>pagesize_version\<close> and the item offsets and lengths
  are. The code leaves three slices unbounded, and the Go runtime stops the program
  there: the item-id loop of \<open>ParsePage\<close> on a page with \<open>lower = 0xFFFF\<close>; \<open>SpecialData\<close>
  on a page that \<open>ParsePage\<close> accepts, with page-size field \<open>0x4000\<close> and \<open>special = 8192\<close>;
  and \<open>ParseHeapTupleHeader\<close>, called by \<open>printHeapTuples\<close> for a NORMAL item at offset 8190
  of length 2, which passes the test \<open>offset + length \<le> 8192\<close>.
\<close>

theorem panics_on_malformed_pages:
  "length lower_ffff_page = 8192 \<and> ParsePage lower_ffff_page = None
   \<and> length pagesize_4000_page = 8192
   \<and> ParsePage pagesize_4000_page = Some pagesize_4000_parsed
   \<and> SpecialData pagesize_4000_parsed = None
   \<and> length short_item_page = 8192
   \<and> ParsePage short_item_page = Some short_item_parsed
   \<and> ParseHeapTupleHeader short_item_parsed 8190 = None
   \<and> printHeapTuples short_item_parsed = None"
proof -
  have a: "SpecialData pagesize_4000_parsed = None"
    by (simp add: SpecialData_def pagesize_4000_parsed_def parsed_header_def headerPageSize_def
        PageSz_def pagesize_4000_page_def slice_def)
  have b: "ParseHeapTupleHeader short_item_parsed 8190 = None"
    by (simp add: ParseHeapTupleHeader_def short_item_parsed_def short_item_page_def
        slice_from_def slice_def)
  have c: "printHeapTuples short_item_parsed = None"
    using b
    by (simp add: printHeapTuples_def printHeapTuples_item_def short_item_parsed_def
        ItemFlags_def Offset_def Length_def LPUnused_def LPRedirect_def LPDead_def PageSize_def)
  show ?thesis
    using a b c ParsePage_lower_ffff_page ParsePage_pagesize_4000_page ParsePage_short_item_page
    by (simp add: lower_ffff_page_def pagesize_4000_page_def short_item_page_def)
qed

section \<open>Items that do not fit the page\<close>

text \<open>
  C2, as amended. For every item with status NORMAL and \<open>offset + length > 8192\<close>, neither
  tuple decoder parses the bytes at the offset: it reports that the item extends beyond
  the page, or that it has no storage when its offset or its length is zero. The decoders
  never compare the offset with \<open>upper\<close>: what they print for an item does not depend on
  the page header.
\<close>

theorem normal_item_beyond_page:
  assumes "ItemFlags lp = LPNormal"
    and "uint (Offset lp) + uint (Length lp) > PageSize"
  shows "printHeapTuples_item p lp
           = Some [if Length lp = 0 \<or> Offset lp = 0 then OutNoStorage else OutBeyondPage]
         \<and> printIndexTuples_item p lp
           = Some [if Length lp = 0 \<or> Offset lp = 0 then OutNoStorage else OutBeyondPage]
         \<and> printHeapTuples_item (p \<lparr> Header := h \<rparr>) lp = printHeapTuples_item p lp
         \<and> printIndexTuples_item (p \<lparr> Header := h \<rparr>) lp = printIndexTuples_item p lp"
  unfolding tuple_views_ignore_header
  using assms
  by (simp add: printHeapTuples_item_def printIndexTuples_item_def)

text \<open>An instance: a NORMAL item at offset 8000 of length 500 (raw word \<open>0x03E89F40\<close>).\<close>

theorem normal_item_beyond_page_witness:
  "ItemFlags (ItemId 0x03E89F40) = LPNormal
   \<and> uint (Offset (ItemId 0x03E89F40)) + uint (Length (ItemId 0x03E89F40)) > PageSize
   \<and> printHeapTuples_item zero_parsed (ItemId 0x03E89F40) = Some [OutBeyondPage]
   \<and> printIndexTuples_item zero_parsed (ItemId 0x03E89F40) = Some [OutBeyondPage]"
proof -
  have fl: "ItemFlags (ItemId 0x03E89F40) = LPNormal"
    and off: "Offset (ItemId 0x03E89F40) = 8000"
    and len: "Length (ItemId 0x03E89F40) = 500"
    by (simp_all add: ItemFlags_def Offset_def Length_def LPNormal_def)
  have gt: "uint (Offset (ItemId 0x03E89F40)) + uint (Length (ItemId 0x03E89F40)) > PageSize"
    by (simp add: off len PageSize_def)
  show ?thesis
    using normal_item_beyond_page [OF fl gt, of zero_parsed] fl gt
    by (simp add: off len)
qed

text \<open>
  The claim as first stated also asks for an item with \<open>offset < upper\<close> to be reported as
  corrupt and left unparsed. On the page \<open>low_item_page\<close> the only item is NORMAL at
  offset 100, below \<open>upper = 8000\<close>, and both decoders parse a tuple header there.
\<close>

theorem normal_item_below_upper_is_parsed:
  "ParsePage low_item_page = Some low_item_parsed
   \<and> Items low_item_parsed = [ItemId 0x00648064]
   \<and> ItemFlags (ItemId 0x00648064) = LPNormal
   \<and> Offset (ItemId 0x00648064) = 100
   \<and> Length (ItemId 0x00648064) = 50
   \<and> Upper (Header low_item_parsed) = 8000
   \<and> printHeapTuples_item low_item_parsed (ItemId 0x00648064)
       = Some [OutHeapHeader \<lparr> Xmin = 0, Xmax = 0, Field3 = 0, CtidBlock = 0, CtidOffset = 0,
                 Infomask2 = 0, Infomask = 0, Hoff = 0 \<rparr>,
               OutUserData 50 100 (replicate 50 0)]
   \<and> printIndexTuples_item low_item_parsed (ItemId 0x00648064)
       = Some [OutIndexHeader \<lparr> TidBlock = 0, TidOffset = 0, Info = 0 \<rparr>,
               OutKeyData 42 (replicate 42 0)]"
proof -
  have fl: "ItemFlags (ItemId 0x00648064) = LPNormal"
    and off: "Offset (ItemId 0x00648064) = 100"
    and len: "Length (ItemId 0x00648064) = 50"
    by (simp_all add: ItemFlags_def Offset_def Length_def LPNormal_def)
  have hp: "ParseHeapTupleHeader low_item_parsed 100
            = Some \<lparr> Xmin = 0, Xmax = 0, Field3 = 0, CtidBlock = 0, CtidOffset = 0,
                 Infomask2 = 0, Infomask = 0, Hoff = 0 \<rparr>"
    by (simp add: ParseHeapTupleHeader_def low_item_parsed_def low_item_page_def
        slice_from_def slice_def Uint32_def Uint16_def index_at_def)
  have ip: "ParseIndexTupleHeader low_item_parsed 100
            = Some \<lparr> TidBlock = 0, TidOffset = 0, Info = 0 \<rparr>"
    by (simp add: ParseIndexTupleHeader_def low_item_parsed_def low_item_page_def
        slice_from_def slice_def Uint16_def)
  have pr: "\<And>n. extractPrintable_loop (replicate n 0) [] = []"
    subgoal for n by (induction n) simp_all
    done
  have ud: "slice 100 150 (Data low_item_parsed) = Some (replicate 50 0)"
    "slice 108 150 (Data low_item_parsed) = Some (replicate 42 0)"
    by (simp_all add: low_item_parsed_def low_item_page_def slice_def)
  have heap: "printHeapTuples_item low_item_parsed (ItemId 0x00648064)
       = Some [OutHeapHeader \<lparr> Xmin = 0, Xmax = 0, Field3 = 0, CtidBlock = 0, CtidOffset = 0,
                 Infomask2 = 0, Infomask = 0, Hoff = 0 \<rparr>,
               OutUserData 50 100 (replicate 50 0)]"
    unfolding printHeapTuples_item_def fl off len
    by (simp add: hp ud PageSize_def HeapHasNull_def printable_lines_def extractPrintable_def pr)
  have idx: "printIndexTuples_item low_item_parsed (ItemId 0x00648064)
       = Some [OutIndexHeader \<lparr> TidBlock = 0, TidOffset = 0, Info = 0 \<rparr>,
               OutKeyData 42 (replicate 42 0)]"
    unfolding printIndexTuples_item_def fl off len
    by (simp add: ip ud PageSize_def IndexTupleHdrSize_def HasNulls_def IndexNullMask_def
        printable_lines_def extractPrintable_def pr)
  show ?thesis
    using fl off len heap idx ParsePage_low_item_page
    by (simp add: low_item_parsed_def parsed_header_def)
qed

section \<open>The page size the decoder uses\<close>

text \<open>
  C3, as amended. The special-region size and the size the classifier works with are
  \<open>P - special\<close>, where \<open>P\<close> is the page-size field \<open>pagesize_version & 0xFF00\<close> of the header,
  and 8192 only when that field is zero. So the special-region size is \<open>8192 - special\<close>
  exactly when the field is zero or \<open>0x2000\<close>, and the classifier answers heap exactly when
  \<open>special\<close> equals \<open>P\<close>.
\<close>

theorem SpecialSize_header_page_size:
  "SpecialSize p = (if PageSizeVer (Header p) AND 0xFF00 = 0 then 8192
                    else uint (PageSizeVer (Header p) AND 0xFF00)) - uint (Special (Header p))
   \<and> (SpecialSize p = PageSize - uint (Special (Header p)))
      = (PageSizeVer (Header p) AND 0xFF00 = 0 \<or> PageSizeVer (Header p) AND 0xFF00 = 0x2000)
   \<and> (detectPageType p = Some PageTypeHeap)
      = (uint (Special (Header p)) = (if PageSizeVer (Header p) AND 0xFF00 = 0 then 8192
                    else uint (PageSizeVer (Header p) AND 0xFF00)))"
proof -
  have heap: "(detectPageType p = Some PageTypeHeap)
              = (headerPageSize (Header p) - uint (Special (Header p)) = 0)"
    unfolding detectPageType_def Let_def
    by (auto simp add: bind_eq_Some_conv detectSpecial8_not_heap)
  show ?thesis
    unfolding SpecialSize_def heap headerPageSize_alt PageSize_def
    by (auto simp add: uint16_eq_8192)
qed

theorem SpecialSize_header_page_size_witness:
  "SpecialSize brin_parsed = 8 \<and> detectPageType zero_parsed \<noteq> Some PageTypeHeap"
  using SpecialSize_header_page_size [of brin_parsed] SpecialSize_header_page_size [of zero_parsed]
  by (simp add: brin_parsed_def zero_parsed_def parsed_header_def)

text \<open>
  The claim as first stated has the sizes computed as \<open>8192 - special\<close> whatever the field
  says. With the field at \<open>0x1000\<close> and \<open>special = 4088\<close> the special-region size is 8, not
  4104, and the classifier reads the word at bytes 4094 and 4095 and answers GIN.
\<close>

theorem SpecialSize_pagesize_1000:
  "ParsePage pagesize_1000_page = Some pagesize_1000_parsed
   \<and> PageSz (Header pagesize_1000_parsed) = 0x1000
   \<and> Special (Header pagesize_1000_parsed) = 4088
   \<and> SpecialSize pagesize_1000_parsed = 8
   \<and> PageSize - uint (Special (Header pagesize_1000_parsed)) = 4104
   \<and> detectPageType pagesize_1000_parsed = Some PageTypeGIN"
proof -
  have "detectPageType pagesize_1000_parsed = Some PageTypeGIN"
    by (simp add: detectPageType_def
      parsed_header_def headerPageSize_def PageSz_def PageSize_def pagesize_1000_parsed_def
      pagesize_1000_page_def slice_from_def detectSpecial8_def slice_def Uint16_def
      PageHeaderSize_def
      BRINPageTypeMeta_def BRINPageTypeRevmap_def BRINPageTypeRegular_def SPGistPageID_def)
  then show ?thesis
    using ParsePage_pagesize_1000_page
    by (simp add: pagesize_1000_parsed_def parsed_header_def SpecialSize_def headerPageSize_def
        PageSz_def PageSize_def)
qed

section \<open>The classifier\<close>

text \<open>
  C4. The classifier returns heap exactly when the special-region size it computes is
  zero; and for every page with a nonzero special size whose \<open>special\<close> is at least the
  page size or below 24, it returns unknown.
\<close>

theorem detectPageType_heap_unknown:
  "(detectPageType p = Some PageTypeHeap) = (SpecialSize p = 0)
   \<and> (SpecialSize p \<noteq> 0 \<and>
        (uint (Special (Header p)) \<ge> headerPageSize (Header p)
         \<or> uint (Special (Header p)) < PageHeaderSize)
      \<longrightarrow> detectPageType p = Some PageTypeUnknown)"
  unfolding detectPageType_def SpecialSize_def Let_def
  by (auto simp add: bind_eq_Some_conv detectSpecial8_not_heap)

theorem detectPageType_heap_unknown_witness:
  "SpecialSize zero_parsed \<noteq> 0
   \<and> uint (Special (Header zero_parsed)) < PageHeaderSize
   \<and> detectPageType zero_parsed = Some PageTypeUnknown
   \<and> SpecialSize low_item_parsed = 0
   \<and> detectPageType low_item_parsed = Some PageTypeHeap"
proof -
  have a: "SpecialSize zero_parsed = 8192" "uint (Special (Header zero_parsed)) < PageHeaderSize"
    by (simp_all add: SpecialSize_def zero_parsed_def parsed_header_def headerPageSize_def
        PageSz_def PageSize_def PageHeaderSize_def)
  have b: "SpecialSize low_item_parsed = 0"
    by (simp add: SpecialSize_def low_item_parsed_def parsed_header_def headerPageSize_def
        PageSz_def PageSize_def)
  show ?thesis
    using detectPageType_heap_unknown [of zero_parsed]
      detectPageType_heap_unknown [of low_item_parsed] a b
    by simp
qed




section \<open>The GiST sequence number\<close>

text \<open>
  C6, as amended. For every GiST special region of at least 16 bytes, the 64-bit \<open>nsn\<close> has
  the first stored 32-bit little-endian word as its high half and the second stored word
  as its low half, as the header's \<open>lsn\<close> has; it is rendered as high/low, that is, the first
  stored word before the slash and the second after it.
\<close>

theorem DecodeGiSTSpecial_nsn:
  assumes "length data \<ge> 16"
  shows "\<exists>first second r.
           slice 0 4 data \<bind> Uint32 = Some first
         \<and> slice 4 8 data \<bind> Uint32 = Some second
         \<and> DecodeGiSTSpecial data = Some (GiSTFields r)
         \<and> nsn r = push_bit 32 (ucast first) OR ucast second
         \<and> nsn_before_slash r = ucast first
         \<and> nsn_after_slash r = ucast second"
proof -
  obtain first where f: "slice 0 4 data \<bind> Uint32 = Some first"
    using assms Uint32_slice [of 0 data] by simp
  obtain second where s: "slice 4 8 data \<bind> Uint32 = Some second"
    using assms Uint32_slice [of 4 data] by simp
  obtain rl where rl: "slice 8 12 data \<bind> Uint32 = Some rl"
    using assms Uint32_slice [of 8 data] by simp
  obtain fl where fl: "slice 12 14 data \<bind> Uint16 = Some fl"
    using assms Uint16_slice [of 12 data] by simp
  obtain pid where pid: "slice 14 16 data \<bind> Uint16 = Some pid"
    using assms Uint16_slice [of 14 data] by simp
  have "DecodeGiSTSpecial data = Some (GiSTFields
          \<lparr> nsn = push_bit 32 (ucast first) OR ucast second,
            nsn_before_slash = ucast first, nsn_after_slash = ucast second,
            rightlink = rl, gist_flags = fl, gist_flag_names = gistFlags fl,
            gist_page_id = pid, is_gist_page_id = (pid = GistPageID) \<rparr>)"
    unfolding DecodeGiSTSpecial_def f s rl fl pid
    using assms nsn_halves [of first second] by (simp add: GistOpaqueSize_def Let_def)
  with f s show ?thesis by simp
qed

theorem DecodeGiSTSpecial_nsn_witness:
  "length gist_special_bytes \<ge> 16
   \<and> (\<exists>r. DecodeGiSTSpecial gist_special_bytes = Some (GiSTFields r)
          \<and> nsn r = 0x100000002 \<and> nsn_before_slash r = 1 \<and> nsn_after_slash r = 2)"
proof -
  have len: "length gist_special_bytes \<ge> 16" by (simp add: gist_special_bytes_def)
  have f: "slice 0 4 gist_special_bytes \<bind> Uint32 = Some 1"
    and s: "slice 4 8 gist_special_bytes \<bind> Uint32 = Some 2"
    by (simp_all add: gist_special_bytes_def slice_def Uint32_def)
  from DecodeGiSTSpecial_nsn [OF len] f s len show ?thesis by auto
qed

text \<open>
  The claim as first stated has the first stored word as the low half. For the stored
  words 1 and 2 the code gives \<open>0x100000002\<close>, printed \<open>1/00000002\<close>; low-then-high would be
  \<open>0x200000001\<close>, printed \<open>2/00000001\<close>.
\<close>

theorem DecodeGiSTSpecial_nsn_first_word_high:
  "slice 0 4 gist_special_bytes \<bind> Uint32 = Some 1
   \<and> slice 4 8 gist_special_bytes \<bind> Uint32 = Some 2
   \<and> DecodeGiSTSpecial gist_special_bytes
       = Some (GiSTFields \<lparr> nsn = 0x100000002, nsn_before_slash = 1, nsn_after_slash = 2,
           rightlink = 0, gist_flags = 0, gist_flag_names = [], gist_page_id = 0xFF81,
           is_gist_page_id = True \<rparr>)
   \<and> spec_nsn_low_then_high 1 2 = 0x200000001
   \<and> drop_bit 32 (spec_nsn_low_then_high 1 2) = 2
   \<and> spec_nsn_low_then_high 1 2 AND 0xFFFFFFFF = 1"
  by (simp add: DecodeGiSTSpecial_def gist_special_bytes_def GistOpaqueSize_def slice_def
      Uint32_def Uint16_def gistFlags_def flag_if_def GistPageID_def spec_nsn_low_then_high_def)

section \<open>Item-id packing\<close>

text \<open>
  C7. For every 32-bit item-id word, putting the decoded status back at bit 15, the
  decoded offset at bit 0 and the decoded length at bit 17 gives the raw word again,
  bit for bit.
\<close>

theorem ItemId_recompose:
  "push_bit 15 (ucast (ItemFlags lp) :: uint32) OR ucast (Offset lp)
     OR push_bit 17 (ucast (Length lp)) = Raw lp"
proof (rule bit_eqI)
  fix n
  assume "possible_bit TYPE(uint32) n"
  then have n: "n < 32" by simp
  consider "n < 15" | "15 \<le> n" "n < 17" | "17 \<le> n" by linarith
  then show "bit (push_bit 15 (ucast (ItemFlags lp) :: uint32) OR ucast (Offset lp)
     OR push_bit 17 (ucast (Length lp))) n = bit (Raw lp) n"
    using n unfolding ItemFlags_def Offset_def Length_def word_0x7FFF_mask word_3_mask
    by cases (auto simp add: bit_simps)
qed

section \<open>Flag names of the infomask\<close>

text \<open>
  C8. For every 16-bit infomask, the list of flag names contains at most one of
  \<open>XMIN_COMMITTED\<close>, \<open>XMIN_INVALID\<close> and \<open>XMIN_FROZEN\<close>, and which one is decided by the
  field \<open>infomask & 0x0300\<close> alone: \<open>0x0300\<close> gives \<open>XMIN_FROZEN\<close>, \<open>0x0100\<close> gives
  \<open>XMIN_COMMITTED\<close>, \<open>0x0200\<close> gives \<open>XMIN_INVALID\<close>, and zero gives none of them.
\<close>

theorem InfomaskFlags_xmin:
  "filter (\<lambda>s. s \<in> set [''XMIN_COMMITTED'', ''XMIN_INVALID'', ''XMIN_FROZEN''])
          (InfomaskFlags t)
   = (if Infomask t AND 0x0300 = 0x0300 then [''XMIN_FROZEN'']
      else if Infomask t AND 0x0300 = 0x0100 then [''XMIN_COMMITTED'']
      else if Infomask t AND 0x0300 = 0x0200 then [''XMIN_INVALID'']
      else [])
   \<and> length (filter (\<lambda>s. s \<in> set [''XMIN_COMMITTED'', ''XMIN_INVALID'', ''XMIN_FROZEN''])
          (InfomaskFlags t)) \<le> 1"
  unfolding InfomaskFlags_def Let_def
  by (simp add: filter_flag_if HeapXminFrozen_def HeapXminCommitted_def HeapXminInvalid_def)

theorem InfomaskFlags_xmin_witness:
  "filter (\<lambda>s. s \<in> set [''XMIN_COMMITTED'', ''XMIN_INVALID'', ''XMIN_FROZEN''])
          (InfomaskFlags \<lparr> Xmin = 969, Xmax = 978, Field3 = 0, CtidBlock = 0, CtidOffset = 1,
             Infomask2 = 4, Infomask = 0x0102, Hoff = 24 \<rparr>)
   = [''XMIN_COMMITTED'']"
  using InfomaskFlags_xmin [of "\<lparr> Xmin = 969, Xmax = 978, Field3 = 0, CtidBlock = 0,
             CtidOffset = 1, Infomask2 = 4, Infomask = 0x0102, Hoff = 24 \<rparr>"]
  by simp

section \<open>The layout view\<close>




section \<open>Items without storage\<close>

text \<open>
  C10. For every item whose status is NORMAL, or DEAD with a nonzero length, and whose
  length or offset is zero, the heap and the index tuple decoder both report that the
  item has no storage (after the note that a DEAD item has storage) and parse no bytes
  at its offset.
\<close>

theorem zero_offset_or_length_no_storage:
  assumes "ItemFlags lp = LPNormal \<or> (ItemFlags lp = LPDead \<and> Length lp \<noteq> 0)"
    and "Length lp = 0 \<or> Offset lp = 0"
  shows "printHeapTuples_item p lp
           = Some ((if ItemFlags lp = LPDead then [OutDeadHasStorage] else []) @ [OutNoStorage])
         \<and> printIndexTuples_item p lp
           = Some ((if ItemFlags lp = LPDead then [OutDeadHasStorage] else []) @ [OutNoStorage])"
  using assms by (auto simp add: printHeapTuples_item_def printIndexTuples_item_def)

theorem zero_offset_or_length_no_storage_witness:
  "ItemFlags (ItemId 0x00008064) = LPNormal \<and> Length (ItemId 0x00008064) = 0
   \<and> printHeapTuples_item low_item_parsed (ItemId 0x00008064) = Some [OutNoStorage]
   \<and> printIndexTuples_item low_item_parsed (ItemId 0x00008064) = Some [OutNoStorage]"
proof -
  have fl: "ItemFlags (ItemId 0x00008064) = LPNormal"
    and len: "Length (ItemId 0x00008064) = 0"
    by (simp_all add: ItemFlags_def Length_def LPNormal_def)
  show ?thesis
    using zero_offset_or_length_no_storage [of "ItemId 0x00008064" low_item_parsed] fl len
    by simp
qed

end
